theory Spec2Isabelle
  imports Complex_Main "HOL-Library.Sublist"
begin

section \<open>Python values the script handles\<close>

text \<open>
  The load-testing script \<^verbatim>\<open>Performance Testing/locustfile.py\<close> is embedded function by
  function. Python integers are \<^typ>\<open>int\<close>; Python floats (latencies, percentages) are
  modelled by exact rationals, which suffices for the comparisons and the \<open>max\<close> made on
  them. Wall-clock values (log timestamps, \<open>Statistics.start_time\<close>) are left out.

  A decoded JSON body, as \<open>response.json()\<close> returns it: \<open>None\<close>, a bool, a number, a
  \<open>str\<close>, a \<open>list\<close> or a \<open>dict\<close> (kept as the list of its items, looked up with
  \<^const>\<open>map_of\<close>).
\<close>

datatype json =
    JNull
  | JBool bool
  | JInt int
  | JFloat rat
  | JStr string
  | JArr "json list"
  | JObj "(string \<times> json) list"

text \<open>The exceptions that the modelled code can meet.\<close>

datatype py_exn =
    JSONDecodeError
  | KeyError string
  | TypeError
  | AttributeError string
  | ZeroDivisionError

text \<open>
  An f-string is kept as its pieces: literal text, and the places where Python's \<open>str()\<close>
  renders a decoded value or an exception. The rendering itself is the interpreter's.
\<close>

datatype piece = Lit string | Str_json json | Str_exn py_exn

type_synonym fstring = "piece list"

text \<open>\<open>body[key]\<close> with a \<open>str\<close> key: only a \<open>dict\<close> can be subscripted by a string.\<close>

fun py_getitem :: "json \<Rightarrow> string \<Rightarrow> py_exn + json" where
  "py_getitem (JObj kv) k = (case map_of kv k of None \<Rightarrow> Inl (KeyError k) | Some v \<Rightarrow> Inr v)"
| "py_getitem _ k = Inl TypeError"

text \<open>
  \<open>key in body\<close> with a \<open>str\<close> key: key membership for a \<open>dict\<close>, element membership for
  a \<open>list\<close>, substring test for a \<open>str\<close>; \<open>TypeError\<close> for \<open>None\<close>, bools and numbers.
\<close>

fun py_contains :: "string \<Rightarrow> json \<Rightarrow> py_exn + bool" where
  "py_contains k (JObj kv) = Inr (map_of kv k \<noteq> None)"
| "py_contains k (JArr xs) = Inr (JStr k \<in> set xs)"
| "py_contains k (JStr s) = Inr (sublist k s)"
| "py_contains k _ = Inl TypeError"

text \<open>\<open>body.get(key, default)\<close>: only a \<open>dict\<close> has the method.\<close>

fun py_get :: "json \<Rightarrow> string \<Rightarrow> json \<Rightarrow> py_exn + json" where
  "py_get (JObj kv) k d = Inr (case map_of kv k of None \<Rightarrow> d | Some v \<Rightarrow> v)"
| "py_get _ k d = Inl (AttributeError ''get'')"

text \<open>True division \<open>a / b\<close> of two integers.\<close>

definition py_truediv :: "int \<Rightarrow> int \<Rightarrow> py_exn + rat" where
  "py_truediv a b = (if b = 0 then Inl ZeroDivisionError else Inr (of_int a / of_int b))"

text \<open>\<open>str(n)\<close> for an integer: its decimal digits, with a sign when negative.\<close>

fun str_nat :: "nat \<Rightarrow> string" where
  "str_nat n =
     (if n < 10 then [''0123456789'' ! n]
      else str_nat (n div 10) @ [''0123456789'' ! (n mod 10)])"

definition str_int :: "int \<Rightarrow> string" where
  "str_int i = (if i < 0 then CHR ''-'' # str_nat (nat (- i)) else str_nat (nat i))"

section \<open>Test configuration and statistics\<close>

definition FAILURE_THRESHOLD :: rat where "FAILURE_THRESHOLD = 1"
definition MIN_REQUESTS :: int where "MIN_REQUESTS = 10"
definition MAX_RESPONSE_TIME :: rat where "MAX_RESPONSE_TIME = 2000"
definition REPORT_DIR :: string where "REPORT_DIR = ''load_test_reports''"

record Statistics =
  total_requests :: int
  failed_requests :: int
  max_response_time :: rat

definition Statistics_init :: Statistics where
  "Statistics_init = \<lparr>total_requests = 0, failed_requests = 0, max_response_time = 0\<rparr>"

definition failure_percentage :: "Statistics \<Rightarrow> rat" where
  "failure_percentage st =
     (if total_requests st = 0 then 0
      else (of_int (failed_requests st) / of_int (total_requests st)) * 100)"

section \<open>The random source and the HTTP client\<close>

text \<open>
  The random source is a sequence of draws and the position reached in it.
  \<open>random.choices(population, k=k)\<close> takes \<open>k\<close> draws, each selecting an index of the
  population; \<open>random.choice(seq)\<close> takes one.
\<close>

record rng =
  draw :: "nat \<Rightarrow> nat"
  pos :: nat

definition random_choices :: "'a list \<Rightarrow> nat \<Rightarrow> rng \<Rightarrow> 'a list \<times> rng" where
  "random_choices population k g =
     (map (\<lambda>i. population ! (draw g (pos g + i) mod length population)) [0..<k],
      g\<lparr>pos := pos g + k\<rparr>)"

definition random_choice :: "'a list \<Rightarrow> rng \<Rightarrow> 'a \<times> rng" where
  "random_choice xs g = (xs ! (draw g (pos g) mod length xs), g\<lparr>pos := pos g + 1\<rparr>)"

definition ascii_lowercase :: string where
  "ascii_lowercase = ''abcdefghijklmnopqrstuvwxyz''"

definition digits :: string where
  "digits = ''0123456789''"

record user =
  fullName :: string
  userName :: string
  email :: string
  password :: string
  phone :: string

text \<open>
  A request as \<open>self.client.post(url, data=..., catch_response=True, name=...)\<close> sends it,
  and what the script reads of the response: the result of \<open>response.json()\<close> (the decoded
  body, or the exception raised) and \<open>response.elapsed.total_seconds()\<close>.
\<close>

record request =
  url :: string
  form :: "(string \<times> string) list"
  label :: string

record response =
  response_json :: "py_exn + json"
  elapsed_seconds :: rat

text \<open>
  What was reported on the response: \<open>response.success()\<close>, or \<open>response.failure(x)\<close> with
  \<open>x\<close> a decoded value or a formatted string.
\<close>

datatype reason = Obj json | Text fstring

datatype mark = Success | Failure reason

section \<open>The simulated user\<close>

text \<open>
  The fields of \<open>UserBehavior\<close> (\<open>registered_users\<close>, \<open>stats\<close>), the random source it draws
  from, and the traces of its effects: the lines passed to \<open>logging.info\<close> (scenario, status
  and details of each), the requests sent, and the marks set on the responses.
\<close>

record UserBehavior =
  registered_users :: "user list"
  stats :: Statistics
  random :: rng
  logged :: "(string \<times> string \<times> fstring) list"
  sent :: "request list"
  marks :: "mark list"

definition UserBehavior_init :: "rng \<Rightarrow> UserBehavior" where
  "UserBehavior_init g =
     \<lparr>registered_users = [], stats = Statistics_init, random = g, logged = [], sent = [], marks = []\<rparr>"

definition generate_random_string :: "nat \<Rightarrow> rng \<Rightarrow> string \<times> rng" where
  "generate_random_string len g = random_choices ascii_lowercase len g"

definition generate_random_user :: "rng \<Rightarrow> user \<times> rng" where
  "generate_random_user g =
     (let (random_string, g1) = generate_random_string 8 g;
          (number, g2) = random_choices digits 10 g1
      in (\<lparr>fullName = ''Test User '' @ random_string,
           userName = ''testuser_'' @ random_string,
           email = ''test_'' @ random_string @ ''@example.com'',
           password = ''password_'' @ random_string,
           phone = number\<rparr>, g2))"

definition log_scenario :: "UserBehavior \<Rightarrow> string \<Rightarrow> string \<Rightarrow> fstring \<Rightarrow> UserBehavior" where
  "log_scenario self scenario status details =
     (let s1 = self\<lparr>logged := logged self @ [(scenario, status, details)]\<rparr>;
          s2 = s1\<lparr>stats := (stats s1)\<lparr>total_requests := total_requests (stats s1) + 1\<rparr>\<rparr>
      in if status \<in> set [''FAIL'', ''ERROR'']
         then s2\<lparr>stats := (stats s2)\<lparr>failed_requests := failed_requests (stats s2) + 1\<rparr>\<rparr>
         else s2)"

text \<open>A sequence of \<open>log_scenario\<close> calls, each given by its three arguments.\<close>

fun log_calls :: "UserBehavior \<Rightarrow> (string \<times> string \<times> fstring) list \<Rightarrow> UserBehavior" where
  "log_calls self [] = self"
| "log_calls self ((scenario, status, details) # cs) =
     log_calls (log_scenario self scenario status details) cs"

section \<open>The three scenarios\<close>

text \<open>
  The server under test is the function \<open>post\<close> from the request sent to the response
  received. Every call of \<open>response.json()\<close> on one response gives the same result.
\<close>

definition user_form :: "user \<Rightarrow> (string \<times> string) list" where
  "user_form u =
     [(''fullName'', fullName u), (''userName'', userName u), (''email'', email u),
      (''password'', password u), (''phone'', phone u)]"

definition register_request :: "user \<Rightarrow> request" where
  "register_request user_data =
     \<lparr>url = ''/client_registeration'', form = user_form user_data,
      label = ''1. Register New User''\<rparr>"

text \<open>The value of \<open>response.json()['msg']\<close>, or the exception its evaluation raises.\<close>

definition response_msg :: "response \<Rightarrow> py_exn + json" where
  "response_msg r = (case response_json r of Inl e \<Rightarrow> Inl e | Inr body \<Rightarrow> py_getitem body ''msg'')"

definition set_mark :: "mark \<Rightarrow> UserBehavior \<Rightarrow> UserBehavior" where
  "set_mark m self = self\<lparr>marks := marks self @ [m]\<rparr>"

text \<open>The mark set by \<open>response.failure(f"Invalid response: {str(e)}")\<close>.\<close>

definition invalid_response :: "py_exn \<Rightarrow> mark" where
  "invalid_response e = Failure (Text [Lit ''Invalid response: '', Str_exn e])"

definition scenario_register_new_user :: "(request \<Rightarrow> response) \<Rightarrow> UserBehavior \<Rightarrow> UserBehavior" where
  "scenario_register_new_user post self =
     (let (user_data, g) = generate_random_user (random self);
          s1 = self\<lparr>random := g\<rparr>;
          req = register_request user_data;
          r = post req;
          s2 = s1\<lparr>sent := sent s1 @ [req]\<rparr>;
          s3 = (case response_msg r of
                  Inr m \<Rightarrow>
                    if m = JStr ''User Registered'' then
                      (let t1 = log_scenario s2 ''Registration'' ''SUCCESS''
                                  [Lit (''User: '' @ email user_data)];
                           t2 = set_mark Success t1
                       in t2\<lparr>registered_users := registered_users t2 @ [user_data]\<rparr>)
                    else
                      (let t1 = log_scenario s2 ''Registration'' ''FAIL''
                                  [Lit (''User: '' @ email user_data @ '', Error: ''), Str_json m]
                       in set_mark (Failure (Obj m)) t1)
                | Inl e \<Rightarrow>
                    (let t1 = log_scenario s2 ''Registration'' ''ERROR'' [Str_exn e]
                     in set_mark (invalid_response e) t1))
      in s3\<lparr>stats := (stats s3)\<lparr>max_response_time :=
              max (max_response_time (stats s3)) (elapsed_seconds r * 1000)\<rparr>\<rparr>)"

text \<open>
  The two login scenarios differ in the scenario name, the request name, the payload and
  the field of the user shown in the log; \<open>login\<close> is their common body. The \<open>except\<close>
  branch is \<open>login_error\<close>.
\<close>

definition login_error :: "string \<Rightarrow> py_exn \<Rightarrow> UserBehavior \<Rightarrow> UserBehavior" where
  "login_error scenario e self =
     set_mark (invalid_response e) (log_scenario self scenario ''ERROR'' [Str_exn e])"

definition login ::
  "string \<Rightarrow> string \<Rightarrow> (user \<Rightarrow> (string \<times> string) list) \<Rightarrow> (user \<Rightarrow> string) \<Rightarrow>
   (request \<Rightarrow> response) \<Rightarrow> UserBehavior \<Rightarrow> UserBehavior" where
  "login scenario req_label payload shown post self =
     (if registered_users self = [] then
        log_scenario self scenario ''SKIP'' [Lit ''No registered users available'']
      else
        (let (user, g) = random_choice (registered_users self) (random self);
             s1 = self\<lparr>random := g\<rparr>;
             req = \<lparr>url = ''/client_login'', form = payload user, label = req_label\<rparr>;
             r = post req;
             s2 = s1\<lparr>sent := sent s1 @ [req]\<rparr>
         in case response_json r of
              Inl e \<Rightarrow> login_error scenario e s2
            | Inr body \<Rightarrow>
                (case py_contains ''token'' body of
                   Inl e \<Rightarrow> login_error scenario e s2
                 | Inr True \<Rightarrow>
                     set_mark Success
                       (log_scenario s2 scenario ''SUCCESS'' [Lit (''User: '' @ shown user)])
                 | Inr False \<Rightarrow>
                     (case py_get body ''msg'' (JStr ''Unknown error'') of
                        Inl e \<Rightarrow> login_error scenario e s2
                      | Inr m \<Rightarrow>
                          (let t1 = log_scenario s2 scenario ''FAIL''
                                      [Lit (''User: '' @ shown user @ '', Error: ''), Str_json m]
                           in case py_get body ''msg'' (JStr ''Login failed'') of
                                Inl e \<Rightarrow> login_error scenario e t1
                              | Inr m' \<Rightarrow> set_mark (Failure (Obj m')) t1)))))"

definition email_payload :: "user \<Rightarrow> (string \<times> string) list" where
  "email_payload user = [(''userName'', ''''), (''email'', email user), (''password'', password user)]"

definition username_payload :: "user \<Rightarrow> (string \<times> string) list" where
  "username_payload user =
     [(''userName'', userName user), (''email'', ''''), (''password'', password user)]"

definition scenario_login_with_email :: "(request \<Rightarrow> response) \<Rightarrow> UserBehavior \<Rightarrow> UserBehavior" where
  "scenario_login_with_email =
     login ''Login with Email'' ''2. Login with Email'' email_payload email"

definition scenario_login_with_username :: "(request \<Rightarrow> response) \<Rightarrow> UserBehavior \<Rightarrow> UserBehavior" where
  "scenario_login_with_username =
     login ''Login with Username'' ''3. Login with Username'' username_payload userName"

text \<open>
  A session runs its tasks one after the other; the server may answer each differently.
\<close>

datatype task = Register | Login_with_email | Login_with_username

fun run_task :: "task \<Rightarrow> (request \<Rightarrow> response) \<Rightarrow> UserBehavior \<Rightarrow> UserBehavior" where
  "run_task Register post self = scenario_register_new_user post self"
| "run_task Login_with_email post self = scenario_login_with_email post self"
| "run_task Login_with_username post self = scenario_login_with_username post self"

fun run_tasks :: "(task \<times> (request \<Rightarrow> response)) list \<Rightarrow> UserBehavior \<Rightarrow> UserBehavior" where
  "run_tasks [] self = self"
| "run_tasks ((t, post) # ts) self = run_tasks ts (run_task t post self)"

section \<open>Reports at the end of the run\<close>

text \<open>
  \<open>environment.stats.total\<close> is an object of the load-testing framework, whose class is
  not part of this file. \<open>on_test_end\<close> reads its attributes \<open>num_requests\<close>,
  \<open>num_failures\<close> and \<open>avg_response_time\<close>. \<open>generate_junit_report\<close> reads
  \<open>total_requests\<close> and \<open>failed_requests\<close> of the object it is given, the field names of
  this file's own \<open>Statistics\<close>; the framework's entry does not have them, so they are
  optional here, and reading an attribute an object lacks raises \<open>AttributeError\<close>.
\<close>

record aggregate =
  num_requests :: int
  num_failures :: int
  avg_response_time :: rat
  attr_total_requests :: "int option"
  attr_failed_requests :: "int option"

text \<open>The dictionary that \<open>json.dump\<close> writes.\<close>

record report =
  report_total_requests :: int
  report_failed_requests :: int
  report_failure_percentage :: rat
  report_average_response_time :: rat
  report_test_duration :: string

datatype file_content = Json_dump report | Written string

text \<open>
  \<open>environment.runner.stats.start_time\<close> is the framework's as well. The framework keeps
  it as a float, the seconds since the epoch that \<open>time.time()\<close> gave, and
  \<open>datetime.now() - start_time\<close> with a float raises \<open>TypeError\<close>. Only with a
  \<open>datetime\<close> does the subtraction give a \<open>timedelta\<close>; the text \<open>str()\<close> makes of it
  is then given with the value.
\<close>

datatype start_time = Float_seconds rat | Datetime_with_elapsed string

text \<open>\<open>str(datetime.now() - start_time)\<close>, or the exception it raises.\<close>

fun test_duration :: "start_time \<Rightarrow> py_exn + string" where
  "test_duration (Float_seconds t) = Inl TypeError"
| "test_duration (Datetime_with_elapsed d) = Inr d"

text \<open>
  The state \<open>on_test_end\<close> works on: the aggregate, the start time,
  \<open>environment.process_exit_code\<close> (\<open>None\<close> until assigned), the files by path, and the
  lines passed to \<open>logging\<close> with their level. Creating the report directory and opening
  the files are taken to succeed.
\<close>

record world =
  stats_total :: aggregate
  stats_start_time :: start_time
  process_exit_code :: "int option"
  files :: "string \<rightharpoonup> file_content"
  logging :: "(string \<times> string) list"

definition junit_template :: "int \<Rightarrow> int \<Rightarrow> string" where
  \<open>junit_template t f =
     ''<?xml version="1.0" encoding="UTF-8"?>\<newline><testsuites>\<newline>    <testsuite name="Load Test Results" tests="''
     @ str_int t @ ''" failures="'' @ str_int f @
     ''">\<newline>        <testcase name="Performance Requirements" classname="LoadTest">\<newline>            ''
     @ ''<failure message="Failed performance requirements"/>'' @
     ''\<newline>        </testcase>\<newline>    </testsuite>\<newline></testsuites>''\<close>

text \<open>
  Both functions return the state reached and the exception that ended them, if any: what
  was written before an exception stays written.
\<close>

definition generate_junit_report :: "aggregate \<Rightarrow> world \<Rightarrow> world \<times> py_exn option" where
  "generate_junit_report entry w =
     (case attr_total_requests entry of
        None \<Rightarrow> (w, Some (AttributeError ''total_requests''))
      | Some t \<Rightarrow>
          (case attr_failed_requests entry of
             None \<Rightarrow> (w, Some (AttributeError ''failed_requests''))
           | Some f \<Rightarrow>
               (w\<lparr>files := (files w)(REPORT_DIR @ ''/load_test_results.xml'' \<mapsto>
                                       Written (junit_template t f))\<rparr>, None)))"

definition on_test_end :: "world \<Rightarrow> world \<times> py_exn option" where
  "on_test_end w =
     (let total = stats_total w in
      if num_requests total = 0 then
        (w\<lparr>logging := logging w @ [(''ERROR'', ''No requests were made during the test!'')],
           process_exit_code := Some 1\<rparr>, None)
      else
        (case py_truediv (num_failures total) (num_requests total) of
           Inl e \<Rightarrow> (w, Some e)
         | Inr q \<Rightarrow>
             (let failure_percent = q * 100;
                  avg_time = avg_response_time total
              in case test_duration (stats_start_time w) of
                   Inl e \<Rightarrow> (w, Some e)
                 | Inr duration \<Rightarrow>
                     (let report = \<lparr>report_total_requests = num_requests total,
                                    report_failed_requests = num_failures total,
                                    report_failure_percentage = failure_percent,
                                    report_average_response_time = avg_time,
                                    report_test_duration = duration\<rparr>;
                          w1 = w\<lparr>files := (files w)(REPORT_DIR @ ''/load_test_report.json'' \<mapsto>
                                                      Json_dump report)\<rparr>
                      in case generate_junit_report total w1 of
                           (w2, Some e) \<Rightarrow> (w2, Some e)
                         | (w2, None) \<Rightarrow>
                             (let failed = (failure_percent > FAILURE_THRESHOLD \<or>
                                            avg_time > MAX_RESPONSE_TIME \<or>
                                            num_requests total < MIN_REQUESTS)
                              in if failed then
                                   (w2\<lparr>logging := logging w2 @
                                           [(''ERROR'', ''Load test failed to meet requirements!'')],
                                       process_exit_code := Some 1\<rparr>, None)
                                 else
                                   (w2\<lparr>logging := logging w2 @
                                           [(''INFO'', ''Load test completed successfully!'')],
                                       process_exit_code := Some 0\<rparr>, None))))))"

section \<open>Observations and sample inputs\<close>

text \<open>
  \<open>reported self s scenario status m\<close>: from \<open>self\<close> to \<open>s\<close> the log gained exactly one
  line, for this scenario with this status, and exactly one mark \<open>m\<close> was set.
\<close>

definition reported :: "UserBehavior \<Rightarrow> UserBehavior \<Rightarrow> string \<Rightarrow> string \<Rightarrow> mark \<Rightarrow> bool" where
  "reported self s scenario status m =
     (map (\<lambda>l. (fst l, fst (snd l))) (logged s) =
        map (\<lambda>l. (fst l, fst (snd l))) (logged self) @ [(scenario, status)] \<and>
      marks s = marks self @ [m])"

text \<open>A decoded body that is an object with the field \<open>k\<close>.\<close>

fun has_field :: "string \<Rightarrow> py_exn + json \<Rightarrow> bool" where
  "has_field k (Inr (JObj kv)) = (map_of kv k \<noteq> None)"
| "has_field k _ = False"

text \<open>
  What a login attempt logs and marks, told from what \<open>response.json()\<close> gives. For a
  body that is an object: SUCCESS when it has the key \<open>token\<close>, FAIL otherwise, with the
  reason its \<open>msg\<close> or \<open>Login failed\<close>. For a body that is a list or a string the test
  \<open>'token' in body\<close> looks for an element or a substring instead of a field. Everything
  else is an error.
\<close>

fun login_verdict :: "py_exn + json \<Rightarrow> string \<times> mark" where
  "login_verdict (Inl e) = (''ERROR'', invalid_response e)"
| "login_verdict (Inr (JObj kv)) =
     (if map_of kv ''token'' \<noteq> None then (''SUCCESS'', Success)
      else (''FAIL'', Failure (Obj (case map_of kv ''msg'' of
                                      None \<Rightarrow> JStr ''Login failed'' | Some m \<Rightarrow> m))))"
| "login_verdict (Inr (JArr xs)) =
     (if JStr ''token'' \<in> set xs then (''SUCCESS'', Success)
      else (''ERROR'', invalid_response (AttributeError ''get'')))"
| "login_verdict (Inr (JStr s)) =
     (if sublist ''token'' s then (''SUCCESS'', Success)
      else (''ERROR'', invalid_response (AttributeError ''get'')))"
| "login_verdict (Inr _) = (''ERROR'', invalid_response TypeError)"

text \<open>A server that gives the same answer to every request, and a random source.\<close>

definition always :: "py_exn + json \<Rightarrow> request \<Rightarrow> response" where
  "always answer req = \<lparr>response_json = answer, elapsed_seconds = 1 / 4\<rparr>"

definition counting :: rng where
  "counting = \<lparr>draw = id, pos = 0\<rparr>"

definition alice :: user where
  "alice = \<lparr>fullName = ''Test User abcdefgh'', userName = ''testuser_abcdefgh'',
            email = ''test_abcdefgh@example.com'', password = ''password_abcdefgh'',
            phone = ''8901234567''\<rparr>"

definition bob :: user where
  "bob = \<lparr>fullName = ''Test User stuvwxyz'', userName = ''testuser_stuvwxyz'',
          email = ''test_stuvwxyz@example.com'', password = ''password_stuvwxyz'',
          phone = ''5550001234''\<rparr>"

text \<open>A session with two registered users, whose next draw selects the second.\<close>

definition two_users :: UserBehavior where
  "two_users = (UserBehavior_init (counting\<lparr>pos := 1\<rparr>))\<lparr>registered_users := [alice, bob]\<rparr>"

text \<open>
  Aggregates with the attributes that \<open>on_test_end\<close> reads and no others, and the state
  before \<open>on_test_end\<close> runs on one under the framework, whose start time is a float.
  \<open>with_datetime_start\<close> is that state had the start time been a \<open>datetime\<close> one minute
  back.
\<close>

definition bare_entry :: "int \<Rightarrow> int \<Rightarrow> rat \<Rightarrow> aggregate" where
  "bare_entry n f t =
     \<lparr>num_requests = n, num_failures = f, avg_response_time = t,
      attr_total_requests = None, attr_failed_requests = None\<rparr>"

text \<open>The same aggregate, answering also to the two names of \<open>Statistics\<close>.\<close>

definition with_statistics_names :: "aggregate \<Rightarrow> aggregate" where
  "with_statistics_names a =
     a\<lparr>attr_total_requests := Some (num_requests a),
       attr_failed_requests := Some (num_failures a)\<rparr>"

definition at_quit :: "aggregate \<Rightarrow> world" where
  "at_quit a =
     \<lparr>stats_total = a, stats_start_time = Float_seconds 1762214400, process_exit_code = None,
      files = Map.empty, logging = []\<rparr>"

definition with_datetime_start :: "world \<Rightarrow> world" where
  "with_datetime_start w = w\<lparr>stats_start_time := Datetime_with_elapsed ''0:01:00.000000''\<rparr>"

section \<open>Properties of the scenario logger\<close>

lemma log_scenario_stats:
  "stats (log_scenario self scenario status details) =
     (stats self)\<lparr>total_requests := total_requests (stats self) + 1,
                  failed_requests := failed_requests (stats self) +
                    (if status = ''FAIL'' \<or> status = ''ERROR'' then 1 else 0)\<rparr>"
  by (simp add: log_scenario_def Let_def)

lemma log_scenario_fields [simp]:
  "registered_users (log_scenario self sc st d) = registered_users self"
  "random (log_scenario self sc st d) = random self"
  "sent (log_scenario self sc st d) = sent self"
  "marks (log_scenario self sc st d) = marks self"
  "logged (log_scenario self sc st d) = logged self @ [(sc, st, d)]"
  "max_response_time (stats (log_scenario self sc st d)) = max_response_time (stats self)"
  by (simp_all add: log_scenario_def Let_def)

lemma set_mark_fields [simp]:
  "registered_users (set_mark m self) = registered_users self"
  "random (set_mark m self) = random self"
  "sent (set_mark m self) = sent self"
  "marks (set_mark m self) = marks self @ [m]"
  "logged (set_mark m self) = logged self"
  "stats (set_mark m self) = stats self"
  by (simp_all add: set_mark_def)

text \<open>
  Claim C3. Every call of \<open>log_scenario\<close>, whatever the scenario name, the status and the
  details, adds exactly 1 to \<open>total_requests\<close> (also for the status SKIP), and adds 1 to
  \<open>failed_requests\<close> exactly when the status is FAIL or ERROR; SUCCESS and SKIP leave
  \<open>failed_requests\<close> as it was.
\<close>

theorem log_scenario_counts:
  "total_requests (stats (log_scenario self scenario status details)) =
     total_requests (stats self) + 1 \<and>
   failed_requests (stats (log_scenario self scenario status details)) =
     failed_requests (stats self) + (if status = ''FAIL'' \<or> status = ''ERROR'' then 1 else 0) \<and>
   failed_requests (stats (log_scenario self scenario ''SUCCESS'' details)) =
     failed_requests (stats self) \<and>
   total_requests (stats (log_scenario self scenario ''SKIP'' details)) =
     total_requests (stats self) + 1 \<and>
   failed_requests (stats (log_scenario self scenario ''SKIP'' details)) =
     failed_requests (stats self)"
  by (simp add: log_scenario_stats)

lemma log_calls_invariant:
  "0 \<le> failed_requests (stats self) \<Longrightarrow> failed_requests (stats self) \<le> total_requests (stats self) \<Longrightarrow>
   0 \<le> failed_requests (stats (log_calls self cs)) \<and>
   failed_requests (stats (log_calls self cs)) \<le> total_requests (stats (log_calls self cs))"
proof (induction cs arbitrary: self)
  case Nil
  then show ?case by simp
next
  case (Cons c cs)
  obtain scenario status details where c: "c = (scenario, status, details)"
    by (cases c) auto
  have "0 \<le> failed_requests (stats (log_scenario self scenario status details))"
    and "failed_requests (stats (log_scenario self scenario status details))
           \<le> total_requests (stats (log_scenario self scenario status details))"
    using Cons.prems by (simp_all add: log_scenario_stats)
  then show ?case
    unfolding c log_calls.simps by (rule Cons.IH)
qed

text \<open>
  Claim C4. Starting from a freshly constructed \<open>UserBehavior\<close> (both counters 0), after
  every call of any sequence of \<open>log_scenario\<close> calls, that is after each of its prefixes
  \<open>take n calls\<close>, both counters are non-negative and
  \<open>failed_requests \<le> total_requests\<close>.
\<close>

theorem failed_le_total_after_every_call:
  "0 \<le> failed_requests (stats (log_calls (UserBehavior_init g) (take n calls))) \<and>
   0 \<le> total_requests (stats (log_calls (UserBehavior_init g) (take n calls))) \<and>
   failed_requests (stats (log_calls (UserBehavior_init g) (take n calls)))
     \<le> total_requests (stats (log_calls (UserBehavior_init g) (take n calls)))"
proof -
  have "0 \<le> failed_requests (stats (log_calls (UserBehavior_init g) (take n calls))) \<and>
    failed_requests (stats (log_calls (UserBehavior_init g) (take n calls)))
      \<le> total_requests (stats (log_calls (UserBehavior_init g) (take n calls)))"
    by (rule log_calls_invariant) (simp_all add: UserBehavior_init_def Statistics_init_def)
  then show ?thesis by simp
qed

section \<open>Properties of the generated users\<close>

lemma random_choices_length: "length (fst (random_choices population k g)) = k"
  by (simp add: random_choices_def)

lemma random_choices_set:
  "population \<noteq> [] \<Longrightarrow> set (fst (random_choices population k g)) \<subseteq> set population"
  by (auto simp: random_choices_def)

lemma random_choice_mem: "xs \<noteq> [] \<Longrightarrow> fst (random_choice xs g) \<in> set xs"
  by (simp add: random_choice_def)

text \<open>
  Claim C9. For every user that \<open>generate_random_user\<close> produces there is one string \<open>s\<close>
  of 8 lowercase letters such that the full name is \<open>Test User s\<close>, the user name
  \<open>testuser_s\<close>, the email \<open>test_s@example.com\<close> and the password \<open>password_s\<close>; the phone
  number consists of exactly 10 decimal digits.
\<close>

theorem generate_random_user_shape:
  "\<exists>s. length s = 8 \<and> set s \<subseteq> set ascii_lowercase \<and>
       fullName (fst (generate_random_user g)) = ''Test User '' @ s \<and>
       userName (fst (generate_random_user g)) = ''testuser_'' @ s \<and>
       email (fst (generate_random_user g)) = ''test_'' @ s @ ''@example.com'' \<and>
       password (fst (generate_random_user g)) = ''password_'' @ s \<and>
       length (phone (fst (generate_random_user g))) = 10 \<and>
       set (phone (fst (generate_random_user g))) \<subseteq> set digits"
proof -
  let ?s = "fst (generate_random_string 8 g)"
  let ?g1 = "snd (generate_random_string 8 g)"
  have u: "fst (generate_random_user g) =
      \<lparr>fullName = ''Test User '' @ ?s, userName = ''testuser_'' @ ?s,
       email = ''test_'' @ ?s @ ''@example.com'', password = ''password_'' @ ?s,
       phone = fst (random_choices digits 10 ?g1)\<rparr>"
    by (simp add: generate_random_user_def Let_def split_beta)
  have "length ?s = 8"
    by (simp add: generate_random_string_def random_choices_length)
  moreover have "set ?s \<subseteq> set ascii_lowercase"
    unfolding generate_random_string_def
    by (rule random_choices_set) (simp add: ascii_lowercase_def)
  moreover have "length (fst (random_choices digits 10 ?g1)) = 10"
    by (rule random_choices_length)
  moreover have "set (fst (random_choices digits 10 ?g1)) \<subseteq> set digits"
    by (rule random_choices_set) (simp add: digits_def)
  ultimately show ?thesis
    unfolding u by (intro exI [of _ ?s]) simp
qed

lemma counting_user: "generate_random_user counting = (alice, counting\<lparr>pos := 18\<rparr>)"
  by (simp add: generate_random_user_def generate_random_string_def random_choices_def
      counting_def alice_def ascii_lowercase_def digits_def upt_rec)

lemma two_users_choice:
  "fst (random_choice (registered_users two_users) (random two_users)) = bob"
  by (simp add: two_users_def UserBehavior_init_def random_choice_def counting_def)

section \<open>The register scenario\<close>

lemma response_msg_registered:
  "(response_msg r = Inr (JStr ''User Registered'')) =
   (\<exists>kv. response_json r = Inr (JObj kv) \<and> map_of kv ''msg'' = Some (JStr ''User Registered''))"
proof (cases "response_json r")
  case (Inl e)
  then show ?thesis by (simp add: response_msg_def)
next
  case (Inr body)
  then show ?thesis
    by (cases body) (auto simp add: response_msg_def split: option.splits)
qed

text \<open>
  Claim C6. The register scenario sends one request with the generated user. The user is
  appended to \<open>registered_users\<close> if and only if the body is an object whose \<open>msg\<close> is the
  string \<open>User Registered\<close>; then SUCCESS is logged and the response marked successful. When
  \<open>response.json()['msg']\<close> has any other value \<open>m\<close>, FAIL is logged with \<open>m\<close> in the details
  and the response is failed with \<open>m\<close>. When its evaluation raises \<open>e\<close> (body not JSON, no
  \<open>msg\<close>, body not an object), ERROR is logged with the text of \<open>e\<close>. In both other cases
  \<open>registered_users\<close> is unchanged.
\<close>

theorem register_outcome:
  "let user_data = fst (generate_random_user (random self));
       r = post (register_request user_data);
       s = scenario_register_new_user post self
   in sent s = sent self @ [register_request user_data] \<and>
      (registered_users s = registered_users self @ [user_data]) =
        (\<exists>kv. response_json r = Inr (JObj kv) \<and>
              map_of kv ''msg'' = Some (JStr ''User Registered'')) \<and>
      (case response_msg r of
         Inr m \<Rightarrow>
           if m = JStr ''User Registered'' then
             registered_users s = registered_users self @ [user_data] \<and>
             logged s = logged self @
               [(''Registration'', ''SUCCESS'', [Lit (''User: '' @ email user_data)])] \<and>
             marks s = marks self @ [Success]
           else
             registered_users s = registered_users self \<and>
             logged s = logged self @
               [(''Registration'', ''FAIL'',
                 [Lit (''User: '' @ email user_data @ '', Error: ''), Str_json m])] \<and>
             marks s = marks self @ [Failure (Obj m)]
       | Inl e \<Rightarrow>
           registered_users s = registered_users self \<and>
           logged s = logged self @ [(''Registration'', ''ERROR'', [Str_exn e])] \<and>
           marks s = marks self @ [invalid_response e])"
proof -
  let ?u = "fst (generate_random_user (random self))"
  let ?r = "post (register_request ?u)"
  show ?thesis
  proof (cases "response_msg ?r")
    case (Inl e)
    then have "response_msg ?r \<noteq> Inr (JStr ''User Registered'')" by simp
    with Inl show ?thesis
      unfolding response_msg_registered [symmetric]
      by (simp add: scenario_register_new_user_def Let_def split_beta)
  next
    case (Inr m)
    then show ?thesis
      unfolding response_msg_registered [symmetric]
      by (simp add: scenario_register_new_user_def Let_def split_beta)
  qed
qed

theorem register_outcome_witness:
  "registered_users (scenario_register_new_user
      (always (Inr (JObj [(''msg'', JStr ''User Registered'')]))) (UserBehavior_init counting)) = [alice] \<and>
   registered_users (scenario_register_new_user
      (always (Inr (JObj [(''msg'', JStr ''Email already in use'')]))) (UserBehavior_init counting)) = [] \<and>
   marks (scenario_register_new_user
      (always (Inr (JObj [(''msg'', JStr ''Email already in use'')]))) (UserBehavior_init counting)) =
      [Failure (Obj (JStr ''Email already in use''))] \<and>
   logged (scenario_register_new_user
      (always (Inr (JObj [(''error'', JStr ''no msg'')]))) (UserBehavior_init counting)) =
      [(''Registration'', ''ERROR'', [Str_exn (KeyError ''msg'')])] \<and>
   logged (scenario_register_new_user (always (Inl JSONDecodeError)) (UserBehavior_init counting)) =
      [(''Registration'', ''ERROR'', [Str_exn JSONDecodeError])]"
  using register_outcome [of "UserBehavior_init counting" "always (Inr (JObj [(''msg'', JStr ''User Registered'')]))"]
    register_outcome [of "UserBehavior_init counting" "always (Inr (JObj [(''msg'', JStr ''Email already in use'')]))"]
    register_outcome [of "UserBehavior_init counting" "always (Inr (JObj [(''error'', JStr ''no msg'')]))"]
    register_outcome [of "UserBehavior_init counting" "always (Inl JSONDecodeError)"]
  by (simp add: Let_def UserBehavior_init_def counting_user always_def response_msg_def)

section \<open>The login scenarios\<close>

lemma login_skip:
  "registered_users self = [] \<Longrightarrow>
   login sc rl payload shown post self =
     log_scenario self sc ''SKIP'' [Lit ''No registered users available'']"
  by (simp add: login_def)

text \<open>
  Claim C5, as amended. When \<open>registered_users\<close> is empty, each of the two login scenarios
  does nothing but call \<open>log_scenario\<close> with the status SKIP: no request is sent and no
  response marked, \<open>failed_requests\<close> is unchanged, and \<open>total_requests\<close> grows by exactly
  1.
\<close>

theorem login_skip_counts:
  "registered_users self = [] \<Longrightarrow>
     scenario_login_with_email post self =
       log_scenario self ''Login with Email'' ''SKIP'' [Lit ''No registered users available''] \<and>
     scenario_login_with_username post self =
       log_scenario self ''Login with Username'' ''SKIP'' [Lit ''No registered users available''] \<and>
     sent (scenario_login_with_email post self) = sent self \<and>
     sent (scenario_login_with_username post self) = sent self \<and>
     marks (scenario_login_with_email post self) = marks self \<and>
     marks (scenario_login_with_username post self) = marks self \<and>
     total_requests (stats (scenario_login_with_email post self)) = total_requests (stats self) + 1 \<and>
     total_requests (stats (scenario_login_with_username post self)) = total_requests (stats self) + 1 \<and>
     failed_requests (stats (scenario_login_with_email post self)) = failed_requests (stats self) \<and>
     failed_requests (stats (scenario_login_with_username post self)) = failed_requests (stats self)"
  by (simp add: scenario_login_with_email_def scenario_login_with_username_def login_skip
      log_scenario_stats)

theorem login_skip_counts_witness:
  "registered_users (UserBehavior_init counting) = [] \<and>
   logged (scenario_login_with_email (always (Inl JSONDecodeError)) (UserBehavior_init counting)) =
     [(''Login with Email'', ''SKIP'', [Lit ''No registered users available''])] \<and>
   sent (scenario_login_with_username (always (Inl JSONDecodeError)) (UserBehavior_init counting)) = [] \<and>
   total_requests (stats (scenario_login_with_username (always (Inl JSONDecodeError))
     (UserBehavior_init counting))) = 1"
  using login_skip_counts [of "UserBehavior_init counting" "always (Inl JSONDecodeError)"]
  by (simp add: UserBehavior_init_def Statistics_init_def log_scenario_def)

text \<open>
  The claim as it was stated, that the skipped scenarios do not increment
  \<open>total_requests\<close>, fails on a fresh session: the counter goes from 0 to 1.
\<close>

theorem login_skip_increments_total:
  "registered_users (UserBehavior_init counting) = [] \<and>
   total_requests (stats (UserBehavior_init counting)) = 0 \<and>
   total_requests (stats (scenario_login_with_email (always (Inl JSONDecodeError))
     (UserBehavior_init counting))) = 1 \<and>
   total_requests (stats (scenario_login_with_username (always (Inl JSONDecodeError))
     (UserBehavior_init counting))) = 1"
  by (simp add: scenario_login_with_email_def scenario_login_with_username_def login_def
      log_scenario_def UserBehavior_init_def Statistics_init_def)

lemma reported_log_mark:
  "reported self (set_mark m (log_scenario s sc st d)) sc st m"
  if "logged s = logged self" "marks s = marks self"
  using that by (simp add: reported_def)

lemma login_error_reported:
  "logged s = logged self \<Longrightarrow> marks s = marks self \<Longrightarrow>
   reported self (login_error sc e s) sc ''ERROR'' (invalid_response e)"
  by (simp add: login_error_def reported_def)

lemma login_frame:
  "registered_users (login sc rl payload shown post self) = registered_users self"
  by (simp add: login_def login_error_def Let_def split_beta split: sum.splits bool.splits)

lemma login_sent:
  "registered_users self \<noteq> [] \<Longrightarrow>
   sent (login sc rl payload shown post self) =
     sent self @ [\<lparr>url = ''/client_login'',
                   form = payload (fst (random_choice (registered_users self) (random self))),
                   label = rl\<rparr>]"
  by (simp add: login_def login_error_def Let_def split_beta split: sum.splits bool.splits)

lemma login_reported:
  assumes "registered_users self \<noteq> []"
  shows "reported self (login sc rl payload shown post self) sc
     (fst (login_verdict (response_json (post \<lparr>url = ''/client_login'',
          form = payload (fst (random_choice (registered_users self) (random self))), label = rl\<rparr>))))
     (snd (login_verdict (response_json (post \<lparr>url = ''/client_login'',
          form = payload (fst (random_choice (registered_users self) (random self))), label = rl\<rparr>))))"
proof -
  let ?r = "post \<lparr>url = ''/client_login'',
          form = payload (fst (random_choice (registered_users self) (random self))), label = rl\<rparr>"
  show ?thesis
  proof (cases "response_json ?r")
    case (Inl e)
    with assms show ?thesis
      by (simp add: login_def Let_def split_beta login_error_reported)
  next
    case (Inr body)
    with assms show ?thesis
      by (cases body)
        (simp_all add: login_def Let_def split_beta login_error_reported reported_log_mark
          split: option.splits)
  qed
qed

text \<open>
  With a non-empty \<open>registered_users\<close>, each login scenario picks a registered user and
  sends one request with that user's credentials: the email variant with an empty
  \<open>userName\<close> and the user's email, the username variant with the user's \<open>userName\<close> and
  an empty email. It then logs one line and sets one mark, those that \<open>login_verdict\<close>
  gives.
\<close>

lemma login_outcome:
  assumes "registered_users self \<noteq> []"
  shows "let user = fst (random_choice (registered_users self) (random self));
             by_email = \<lparr>url = ''/client_login'',
                         form = [(''userName'', ''''), (''email'', email user),
                                 (''password'', password user)],
                         label = ''2. Login with Email''\<rparr>;
             by_name = \<lparr>url = ''/client_login'',
                        form = [(''userName'', userName user), (''email'', ''''),
                                (''password'', password user)],
                        label = ''3. Login with Username''\<rparr>;
             s1 = scenario_login_with_email post self;
             s2 = scenario_login_with_username post self
         in user \<in> set (registered_users self) \<and>
            sent s1 = sent self @ [by_email] \<and>
            sent s2 = sent self @ [by_name] \<and>
            reported self s1 ''Login with Email''
              (fst (login_verdict (response_json (post by_email))))
              (snd (login_verdict (response_json (post by_email)))) \<and>
            reported self s2 ''Login with Username''
              (fst (login_verdict (response_json (post by_name))))
              (snd (login_verdict (response_json (post by_name))))"
  using assms
    login_reported [OF assms, of "''Login with Email''" "''2. Login with Email''"
      email_payload email post]
    login_reported [OF assms, of "''Login with Username''" "''3. Login with Username''"
      username_payload userName post]
  by (simp add: Let_def scenario_login_with_email_def scenario_login_with_username_def
      login_sent random_choice_mem email_payload_def username_payload_def)

text \<open>
  For a body that is an object, and for a response that cannot be decoded, this is the
  behaviour that the comment in the code asks for: SUCCESS if and only if the object has
  the key \<open>token\<close>, otherwise FAIL with the reason its \<open>msg\<close>, or \<open>Login failed\<close> when
  it has none; ERROR when \<open>response.json()\<close> raises.
\<close>

lemma login_object_body:
  assumes "registered_users self \<noteq> []"
    and "response_json (post \<lparr>url = ''/client_login'',
          form = payload (fst (random_choice (registered_users self) (random self))),
          label = rl\<rparr>) = Inr (JObj kv)"
  shows "reported self (login sc rl payload shown post self) sc
     (if map_of kv ''token'' \<noteq> None then ''SUCCESS'' else ''FAIL'')
     (if map_of kv ''token'' \<noteq> None then Success
      else Failure (Obj (case map_of kv ''msg'' of None \<Rightarrow> JStr ''Login failed'' | Some m \<Rightarrow> m)))"
  using login_reported [OF assms(1), of sc rl payload shown post] assms(2)
  by (cases "map_of kv ''token''") simp_all

lemma login_undecodable:
  assumes "registered_users self \<noteq> []"
    and "response_json (post \<lparr>url = ''/client_login'',
          form = payload (fst (random_choice (registered_users self) (random self))),
          label = rl\<rparr>) = Inl e"
  shows "reported self (login sc rl payload shown post self) sc ''ERROR'' (invalid_response e)"
  using login_reported [OF assms(1), of sc rl payload shown post] assms(2) by simp

lemma login_two_users:
  "sent (scenario_login_with_email (always (Inr (JObj [(''token'', JStr ''t0'')]))) two_users) =
     [\<lparr>url = ''/client_login'',
       form = [(''userName'', ''''), (''email'', ''test_stuvwxyz@example.com''),
               (''password'', ''password_stuvwxyz'')],
       label = ''2. Login with Email''\<rparr>]"
  "reported two_users
     (scenario_login_with_username (always (Inr (JObj [(''msg'', JStr ''Wrong password'')]))) two_users)
     ''Login with Username'' ''FAIL'' (Failure (Obj (JStr ''Wrong password'')))"
  using login_outcome [of two_users "always (Inr (JObj [(''token'', JStr ''t0'')]))"]
    login_outcome [of two_users "always (Inr (JObj [(''msg'', JStr ''Wrong password'')]))"]
  by (simp_all add: Let_def two_users_choice always_def)
    (simp_all add: two_users_def UserBehavior_init_def bob_def)

lemma token_in_invalid_token: "sublist ''token'' ''Invalid token''"
  using sublist_append_leftI [of "''token''" "''Invalid ''"] by simp

text \<open>
  Claim C7 says that a login is a SUCCESS if and only if the response body contains a
  field \<open>token\<close>. In a session with two registered users, where the second is chosen,
  the server answers the login by email with the JSON string \<open>Invalid token\<close> and the
  login by user name with the list \<open>["token"]\<close>. Neither body has a field \<open>token\<close>; on
  each, \<open>'token' in response.json()\<close> is true, as a substring test and as an element
  test, and the login is logged SUCCESS and the response marked successful.
\<close>

theorem login_success_without_token_field:
  "registered_users two_users = [alice, bob] \<and>
   \<not> has_field ''token'' (Inr (JStr ''Invalid token'')) \<and>
   \<not> has_field ''token'' (Inr (JArr [JStr ''token''])) \<and>
   sent (scenario_login_with_email (always (Inr (JStr ''Invalid token''))) two_users) =
     [\<lparr>url = ''/client_login'',
       form = [(''userName'', ''''), (''email'', ''test_stuvwxyz@example.com''),
               (''password'', ''password_stuvwxyz'')],
       label = ''2. Login with Email''\<rparr>] \<and>
   reported two_users (scenario_login_with_email (always (Inr (JStr ''Invalid token''))) two_users)
     ''Login with Email'' ''SUCCESS'' Success \<and>
   reported two_users (scenario_login_with_username (always (Inr (JArr [JStr ''token'']))) two_users)
     ''Login with Username'' ''SUCCESS'' Success"
  by (simp add: scenario_login_with_email_def scenario_login_with_username_def login_def
      login_error_def Let_def split_beta always_def reported_def two_users_def
      UserBehavior_init_def random_choice_def counting_def email_payload_def bob_def
      token_in_invalid_token)

section \<open>The largest response time\<close>

lemma login_max:
  "max_response_time (stats (login sc rl pl sh post self)) = max_response_time (stats self)"
  by (simp add: login_def login_error_def Let_def split_beta split: sum.splits bool.splits)

lemma register_max:
  "max_response_time (stats (scenario_register_new_user post self)) =
     max (max_response_time (stats self))
         (elapsed_seconds (post (register_request (fst (generate_random_user (random self))))) * 1000)"
  by (simp add: scenario_register_new_user_def Let_def split_beta split: sum.splits)

lemma run_task_mono:
  "max_response_time (stats self) \<le> max_response_time (stats (run_task t post self))"
  by (cases t) (simp_all add: register_max login_max scenario_login_with_email_def
      scenario_login_with_username_def)

lemma run_tasks_mono:
  "max_response_time (stats self) \<le> max_response_time (stats (run_tasks ts self))"
proof (induction ts arbitrary: self)
  case Nil
  show ?case by simp
next
  case (Cons a ts)
  obtain t post where a: "a = (t, post)" by (cases a)
  have "max_response_time (stats self) \<le> max_response_time (stats (run_task t post self))"
    by (rule run_task_mono)
  also have "\<dots> \<le> max_response_time (stats (run_tasks ts (run_task t post self)))"
    by (rule Cons.IH)
  finally show ?case by (simp add: a)
qed

lemma run_tasks_append: "run_tasks (ts @ us) self = run_tasks us (run_tasks ts self)"
  by (induction ts arbitrary: self) auto

text \<open>
  Claim C10. The register scenario sets \<open>max_response_time\<close> to the maximum of its old value
  and the latency observed, in milliseconds; the two login scenarios leave it unchanged on
  every path. Hence over any run of tasks it never decreases, and in a session that starts
  fresh it is never negative.
\<close>

theorem max_response_time_frame:
  "max_response_time (stats (scenario_register_new_user post self)) =
     max (max_response_time (stats self))
         (elapsed_seconds (post (register_request (fst (generate_random_user (random self))))) * 1000) \<and>
   max_response_time (stats (scenario_login_with_email post self)) = max_response_time (stats self) \<and>
   max_response_time (stats (scenario_login_with_username post self)) = max_response_time (stats self) \<and>
   max_response_time (stats (run_tasks ts self)) \<le> max_response_time (stats (run_tasks (ts @ us) self)) \<and>
   0 \<le> max_response_time (stats (run_tasks ts (UserBehavior_init g)))"
proof -
  have "max_response_time (stats (UserBehavior_init g)) = 0"
    by (simp add: UserBehavior_init_def Statistics_init_def)
  then have "0 \<le> max_response_time (stats (run_tasks ts (UserBehavior_init g)))"
    using run_tasks_mono [of "UserBehavior_init g" ts] by simp
  then show ?thesis
    by (simp add: register_max login_max scenario_login_with_email_def
        scenario_login_with_username_def run_tasks_append run_tasks_mono)
qed

section \<open>The reports and the exit code\<close>

lemma generate_junit_report_exn:
  "generate_junit_report a w = (w', x) \<Longrightarrow> x \<noteq> Some ZeroDivisionError"
  by (auto simp add: generate_junit_report_def split: option.splits)

lemma test_duration_exn: "test_duration st \<noteq> Inl ZeroDivisionError"
  by (cases st) simp_all

lemma on_test_end_no_zero_division: "snd (on_test_end w) \<noteq> Some ZeroDivisionError"
proof (cases "num_requests (stats_total w) = 0")
  case True
  then show ?thesis by (simp add: on_test_end_def)
next
  case False
  then show ?thesis
    using test_duration_exn [of "stats_start_time w"]
    by (auto simp add: on_test_end_def py_truediv_def Let_def
        split: prod.splits option.splits sum.splits dest: generate_junit_report_exn)
qed

text \<open>
  Claim C2. When the aggregate counts no request, \<open>on_test_end\<close> logs the error, sets the
  exit code to 1 and returns: no file is written and nothing is raised. The division
  \<open>num_failures / num_requests\<close> is never made with a zero divisor, whatever the state
  \<open>v\<close> that \<open>on_test_end\<close> runs on.
\<close>

theorem on_test_end_no_requests:
  "num_requests (stats_total w) = 0 \<Longrightarrow>
     on_test_end w =
       (w\<lparr>logging := logging w @ [(''ERROR'', ''No requests were made during the test!'')],
          process_exit_code := Some 1\<rparr>, None) \<and>
     process_exit_code (fst (on_test_end w)) = Some 1 \<and>
     files (fst (on_test_end w)) = files w \<and>
     snd (on_test_end v) \<noteq> Some ZeroDivisionError"
  by (simp add: on_test_end_no_zero_division) (simp add: on_test_end_def)

theorem on_test_end_no_requests_witness:
  "num_requests (stats_total (at_quit (bare_entry 0 0 0))) = 0 \<and>
   process_exit_code (fst (on_test_end (at_quit (bare_entry 0 0 0)))) = Some 1 \<and>
   files (fst (on_test_end (at_quit (bare_entry 0 0 0)))) = Map.empty \<and>
   snd (on_test_end (at_quit (bare_entry 0 0 0))) = None \<and>
   snd (on_test_end (at_quit (bare_entry 50 0 300))) \<noteq> Some ZeroDivisionError"
  using on_test_end_no_requests [of "at_quit (bare_entry 0 0 0)" "at_quit (bare_entry 50 0 300)"]
  by (simp add: at_quit_def bare_entry_def)

text \<open>
  With at least one request and the framework's float start time, \<open>on_test_end\<close> ends at
  line 203 in \<open>TypeError\<close>, whatever the counts: the state is as it was, so no file is
  written, nothing is logged and the exit code is not assigned.
\<close>

lemma on_test_end_float_start:
  "num_requests (stats_total w) \<noteq> 0 \<Longrightarrow> stats_start_time w = Float_seconds t \<Longrightarrow>
   on_test_end w = (w, Some TypeError)"
  by (simp add: on_test_end_def py_truediv_def Let_def)

text \<open>
  Had the start time been a \<open>datetime\<close>, a second defect would show: the JSON report is
  written, and then \<open>generate_junit_report\<close> raises \<open>AttributeError\<close> on the aggregate,
  which has \<open>num_requests\<close> and \<open>num_failures\<close> but not the \<open>total_requests\<close> and
  \<open>failed_requests\<close> that are read from it. Again the exit code is not assigned.
\<close>

lemma on_test_end_attribute_error:
  "files (fst (on_test_end (with_datetime_start (at_quit (bare_entry 100 5 500)))))
       (REPORT_DIR @ ''/load_test_report.json'') =
     Some (Json_dump \<lparr>report_total_requests = 100, report_failed_requests = 5,
                      report_failure_percentage = 5, report_average_response_time = 500,
                      report_test_duration = ''0:01:00.000000''\<rparr>)"
  "files (fst (on_test_end (with_datetime_start (at_quit (bare_entry 100 5 500)))))
       (REPORT_DIR @ ''/load_test_results.xml'') = None"
  "snd (on_test_end (with_datetime_start (at_quit (bare_entry 100 5 500)))) =
     Some (AttributeError ''total_requests'')"
  "process_exit_code (fst (on_test_end (with_datetime_start (at_quit (bare_entry 100 5 500))))) = None"
  by (simp_all add: on_test_end_def at_quit_def with_datetime_start_def bare_entry_def
      py_truediv_def generate_junit_report_def REPORT_DIR_def)

text \<open>
  Only when the start time is a \<open>datetime\<close> and the object passed to
  \<open>generate_junit_report\<close> has the two attributes it reads does \<open>on_test_end\<close> run to its
  end: the exit code is 1 if the failure percentage exceeds 1, the average response time
  exceeds 2000 or fewer than 10 requests were made, and 0 otherwise; both reports are
  written, the XML one with the values of those two attributes, and always with the
  \<open>failure\<close> element.
\<close>

lemma on_test_end_verdict:
  assumes "num_requests (stats_total w) \<noteq> 0"
    and "stats_start_time w = Datetime_with_elapsed d"
    and "attr_total_requests (stats_total w) = Some t"
    and "attr_failed_requests (stats_total w) = Some f"
  shows "snd (on_test_end w) = None \<and>
     process_exit_code (fst (on_test_end w)) =
       Some (if of_int (num_failures (stats_total w)) / of_int (num_requests (stats_total w)) * 100 > (1::rat)
               \<or> avg_response_time (stats_total w) > 2000
               \<or> num_requests (stats_total w) < 10 then 1 else 0)"
  using assms
  by (simp add: on_test_end_def py_truediv_def generate_junit_report_def Let_def
      FAILURE_THRESHOLD_def MAX_RESPONSE_TIME_def MIN_REQUESTS_def)

lemma on_test_end_reports:
  assumes "num_requests (stats_total w) \<noteq> 0"
    and "stats_start_time w = Datetime_with_elapsed d"
    and "attr_total_requests (stats_total w) = Some t"
    and "attr_failed_requests (stats_total w) = Some f"
  shows "files (fst (on_test_end w)) (REPORT_DIR @ ''/load_test_results.xml'') =
           Some (Written (junit_template t f))"
    and "\<exists>r. files (fst (on_test_end w)) (REPORT_DIR @ ''/load_test_report.json'') = Some (Json_dump r)
           \<and> report_total_requests r = num_requests (stats_total w)
           \<and> report_failed_requests r = num_failures (stats_total w)"
  using assms
  by (simp_all add: on_test_end_def py_truediv_def generate_junit_report_def Let_def REPORT_DIR_def)

text \<open>The two runs that the specification gives as examples, under those two conditions.\<close>

lemma on_test_end_examples:
  "process_exit_code (fst (on_test_end (with_datetime_start
     (at_quit (with_statistics_names (bare_entry 100 5 500)))))) = Some 1"
  "process_exit_code (fst (on_test_end (with_datetime_start
     (at_quit (with_statistics_names (bare_entry 50 0 300)))))) = Some 0"
  by (simp_all add: on_test_end_def at_quit_def with_datetime_start_def bare_entry_def
      with_statistics_names_def py_truediv_def generate_junit_report_def FAILURE_THRESHOLD_def
      MAX_RESPONSE_TIME_def MIN_REQUESTS_def)

lemma sublist_skip: "sublist xs ys \<Longrightarrow> sublist xs (zs @ ys)"
  by (metis append_assoc sublist_def)

lemma junit_template_failure:
  \<open>sublist ''<failure message="Failed performance requirements"/>'' (junit_template t f)\<close>
  unfolding junit_template_def
  by (intro sublist_skip sublist_append_rightI)

lemma junit_template_counts:
  \<open>sublist ('' tests="'' @ str_int t @ ''" failures="'' @ str_int f @ ''">'') (junit_template t f)\<close>
proof -
  have \<open>junit_template t f =
      ''<?xml version="1.0" encoding="UTF-8"?>\<newline><testsuites>\<newline>    <testsuite name="Load Test Results"''
      @ ('' tests="'' @ str_int t @ ''" failures="'' @ str_int f @ ''">'')
      @ ''\<newline>        <testcase name="Performance Requirements" classname="LoadTest">\<newline>            <failure message="Failed performance requirements"/>\<newline>        </testcase>\<newline>    </testsuite>\<newline></testsuites>''\<close>
    by (simp add: junit_template_def)
  then show ?thesis
    by (simp only: sublist_appendI)
qed

text \<open>
  Claim C1 says that with at least one request the exit code is set to 1 or 0 by the
  verdict. Under the framework, with 50 requests, no failure and an average of 300 ms,
  the subtraction at line 203 raises \<open>TypeError\<close> while the report is built: the verdict
  is never computed, nothing is written or logged, and the exit code is left unassigned,
  where the claim gives 0.
\<close>

theorem on_test_end_exit_code_unset:
  "num_requests (stats_total (at_quit (bare_entry 50 0 300))) = 50 \<and>
   snd (on_test_end (at_quit (bare_entry 50 0 300))) = Some TypeError \<and>
   process_exit_code (fst (on_test_end (at_quit (bare_entry 50 0 300)))) = None \<and>
   files (fst (on_test_end (at_quit (bare_entry 50 0 300)))) = Map.empty \<and>
   logging (fst (on_test_end (at_quit (bare_entry 50 0 300)))) = []"
  by (simp add: on_test_end_def at_quit_def bare_entry_def py_truediv_def)


end
